theory Spec2Isabelle
  imports Complex_Main
begin

section \<open>JavaScript values used by the studio component\<close>

text \<open>
  A JavaScript string is a sequence of UTF-16 code units; the component only compares
  strings, concatenates them, tests them for emptiness and trims them, so a string is
  modelled as the list of its code units.
\<close>

type_synonym jsstring = "nat list"

definition ascii :: "string \<Rightarrow> jsstring" where
  "ascii cs = map of_char cs"

text \<open>
  \<open>String.prototype.trim\<close> removes, at both ends, the code units of ECMAScript's
  WhiteSpace and LineTerminator productions: TAB, LF, VT, FF, CR, SP, NBSP, the
  Unicode space separators, LS, PS and the byte order mark.
\<close>

definition is_js_whitespace :: "nat \<Rightarrow> bool" where
  "is_js_whitespace c =
     (c = 9 \<or> c = 10 \<or> c = 11 \<or> c = 12 \<or> c = 13 \<or> c = 32 \<or> c = 160 \<or> c = 5760
      \<or> (8192 \<le> c \<and> c \<le> 8202) \<or> c = 8232 \<or> c = 8233 \<or> c = 8239 \<or> c = 8287
      \<or> c = 12288 \<or> c = 65279)"

definition trim :: "jsstring \<Rightarrow> jsstring" where
  "trim t = rev (dropWhile is_js_whitespace (rev (dropWhile is_js_whitespace t)))"

text \<open>\<open>Date.now().toString()\<close>: the decimal digits of the clock reading.\<close>

fun toString :: "nat \<Rightarrow> jsstring" where
  "toString n = (if n < 10 then [48 + n] else toString (n div 10) @ [48 + n mod 10])"

declare toString.simps [simp del]

text \<open>
  A number read out of a slider array (\<open>volume[0]\<close>, \<open>stability[0]\<close>) is
  \<open>undefined\<close> when the array is empty.
\<close>

datatype jsnum = Undefined | Num real

definition first :: "jsnum list \<Rightarrow> jsnum" where
  "first xs = (case xs of [] \<Rightarrow> Undefined | x # _ \<Rightarrow> x)"

section \<open>The data model of the component\<close>

record Voice =
  voice_id :: jsstring
  name :: jsstring
  category :: jsstring

record AudioHistory =
  h_id :: jsstring
  h_text :: jsstring
  h_voiceId :: jsstring
  h_voiceName :: jsstring
  h_timestamp :: nat
  h_duration :: nat

record settings =
  stability :: jsnum
  similarity :: jsnum
  style :: jsnum
  use_speaker_boost :: bool

record VoicePreset =
  preset_id :: jsstring
  preset_name :: jsstring
  preset_voiceId :: jsstring
  preset_settings :: settings

record SavedAudio =
  blob :: "nat list"
  saved_text :: jsstring
  saved_voiceId :: jsstring
  saved_timestamp :: nat

text \<open>
  The sample handed to the cloning operation: a file chosen in the upload tab (with its
  name) or the blob finalised by the recorder.
\<close>

datatype sample = UploadedFile jsstring "nat list" | RecordedBlob "nat list"

text \<open>
  The Web Audio side: the module-level \<open>audioContext\<close> and \<open>gainNode\<close> (created
  together, so one flag), the gain value, and the buffer sources created so far, named
  by consecutive numbers, with the calls made on each.
\<close>

record audio =
  audioContext :: bool
  gain :: real
  nextSource :: nat
  started :: "nat set"
  stopped :: "nat set"
  connected :: "nat set"

text \<open>
  The React state of \<open>TTSApp\<close> that the handlers below read or write, and its
  refs. \<open>sourceRef\<close> is the handle of the playback source; \<open>audioRef\<close> says
  whether the preview element of a recording is mounted. \<open>progressIntervals\<close> is not
  React state: it counts the interval timers that \<open>handleVoiceCloning\<close> has started
  with \<open>setInterval\<close> and that no \<open>clearInterval\<close> has stopped.
\<close>

record app =
  app_text :: jsstring
  isLoading :: bool
  voices :: "Voice list"
  selectedVoice :: jsstring
  isRecording :: bool
  recordedAudio :: "nat list option"
  audioURL :: "jsstring option"
  recordingDuration :: nat
  isPlaying :: bool
  audioRef :: bool
  isPresetDialogOpen :: bool
  isVoiceDialogOpen :: bool
  presetName :: jsstring
  volume :: "jsnum list"
  isMuted :: bool
  previousVolume :: "jsnum list"
  app_stability :: "jsnum list"
  app_similarity :: "jsnum list"
  app_style :: "jsnum list"
  speakerBoost :: bool
  audioHistory :: "AudioHistory list"
  presets :: "VoicePreset list"
  selectedPreset :: "jsstring option"
  savedAudio :: "SavedAudio option"
  isCloning :: bool
  selectedFile :: "sample option"
  voiceName :: jsstring
  uploadProgress :: nat
  progressIntervals :: nat
  estimatedDuration :: nat
  sourceRef :: "nat option"
  web_audio :: audio


text \<open>The component's initial state: the arguments of its \<open>useState\<close> and \<open>useRef\<close> calls.\<close>

definition init_audio :: audio where
  "init_audio = \<lparr>audioContext = False, gain = 1, nextSource = 0, started = {}, stopped = {},
     connected = {}\<rparr>"

definition init_app :: app where
  "init_app = \<lparr>app_text = [], isLoading = False, voices = [], selectedVoice = [],
     isRecording = False, recordedAudio = None, audioURL = None, recordingDuration = 0,
     isPlaying = False, audioRef = False, isPresetDialogOpen = False,
     isVoiceDialogOpen = False, presetName = [], volume = [Num 50], isMuted = False,
     previousVolume = [Num 50], app_stability = [Num 0.5], app_similarity = [Num 0.70],
     app_style = [Num 0], speakerBoost = True, audioHistory = [], presets = [],
     selectedPreset = None, savedAudio = None, isCloning = False, selectedFile = None,
     voiceName = [], uploadProgress = 0, progressIntervals = 0, estimatedDuration = 0,
     sourceRef = None,
     web_audio = init_audio\<rparr>"

section \<open>What a handler does to the outside\<close>

text \<open>The JSON body that \<open>synthesizeSpeech\<close> posts to \<open>/api/tts\<close>.\<close>

record tts_request =
  req_text :: jsstring
  req_voiceId :: jsstring
  req_stability :: jsnum
  req_similarity_boost :: jsnum
  req_style :: jsnum
  req_use_speaker_boost :: bool

text \<open>
  A handler returns the new state together with the calls it made, in program order:
  notifications, console output, network requests, timers, Web Audio calls, and the
  two updates that record a synthesis (\<open>setSavedAudio\<close>, \<open>setAudioHistory\<close>).
\<close>

datatype effect =
    Toast jsstring jsstring bool
  | ConsoleError jsstring
  | FetchTTS tts_request
  | FetchClone jsstring jsstring
  | FetchDelete jsstring
  | SetSavedAudio SavedAudio
  | SetAudioHistory AudioHistory
  | SourceStop nat
  | SourceDisconnect nat
  | DecodeAudioData
  | CreateBufferSource nat
  | SourceConnect nat
  | SetGain real
  | SourceStart nat
  | SetInterval
  | ClearInterval
  | PreviewPause

text \<open>
  How an awaited \<open>fetch\<close> comes back: the promise rejects (with a message), or a
  response arrives with its \<open>ok\<close> flag and its body.
\<close>

datatype 'a fetched = Rejected jsstring | Response bool 'a

text \<open>What the \<open>try\<close> block of \<open>synthesizeSpeech\<close> or \<open>stopSpeech\<close> can throw.\<close>

datatype error =
    AudioContextUnavailable
  | FetchFailed
  | FailedToGenerateSpeech
  | BodyUnreadable
  | InvalidStateError
  | DecodeError
  | NonFiniteGain

section \<open>Volume, mute and presets\<close>

text \<open>
  \<open>handleVolumeChange\<close>: the assignment to \<open>gain.value\<close> happens only once the gain
  node exists, and a non-finite value (\<open>undefined / 100\<close>) is refused by the node, so
  the gain keeps its value then.
\<close>

definition handleVolumeChange :: "jsnum list \<Rightarrow> app \<Rightarrow> app" where
  "handleVolumeChange newVolume s =
     (let s1 = s\<lparr>volume := newVolume\<rparr> in
      if audioContext (web_audio s1) then
        (case first newVolume of
           Undefined \<Rightarrow> s1
         | Num v \<Rightarrow> s1\<lparr>web_audio := (web_audio s1)\<lparr>gain := v / 100\<rparr>\<rparr>)
      else s1)"

definition handleMuteToggle :: "app \<Rightarrow> app" where
  "handleMuteToggle s =
     (if isMuted s then s\<lparr>volume := previousVolume s, isMuted := False\<rparr>
      else s\<lparr>previousVolume := volume s, volume := [Num 0], isMuted := True\<rparr>)"

definition handleSavePreset :: "nat \<Rightarrow> jsstring \<Rightarrow> app \<Rightarrow> app \<times> effect list" where
  "handleSavePreset now nm s =
     (if trim nm = [] then (s, [])
      else
        let newPreset = \<lparr>preset_id = toString now, preset_name = nm,
              preset_voiceId = selectedVoice s,
              preset_settings = \<lparr>stability = first (app_stability s),
                similarity = first (app_similarity s), style = first (app_style s),
                use_speaker_boost = speakerBoost s\<rparr>\<rparr>
        in (s\<lparr>presets := presets s @ [newPreset], isPresetDialogOpen := False,
               presetName := []\<rparr>,
            [Toast (ascii ''Preset Saved'')
               (ascii [CHR 0x22] @ nm @ ascii ([CHR 0x22] @ '' has been saved to your presets.''))
               False]))"

definition loadPreset :: "jsstring \<Rightarrow> app \<Rightarrow> app \<times> effect list" where
  "loadPreset presetId s =
     (case find (\<lambda>p. preset_id p = presetId) (presets s) of
        None \<Rightarrow> (s, [])
      | Some preset \<Rightarrow>
          (s\<lparr>selectedVoice := preset_voiceId preset,
             app_stability := [stability (preset_settings preset)],
             app_similarity := [similarity (preset_settings preset)],
             app_style := [style (preset_settings preset)],
             speakerBoost := use_speaker_boost (preset_settings preset),
             selectedPreset := Some presetId\<rparr>,
           [Toast (ascii ''Preset Loaded'')
              (ascii [CHR 0x22] @ preset_name preset
                 @ ascii ([CHR 0x22] @ '' settings have been applied.''))
              False]))"

text \<open>The settings bundle a preset snapshots, read off the state as the save does.\<close>

definition settings_bundle :: "app \<Rightarrow> settings" where
  "settings_bundle s = \<lparr>stability = first (app_stability s),
     similarity = first (app_similarity s), style = first (app_style s),
     use_speaker_boost = speakerBoost s\<rparr>"


section \<open>Speech synthesis and playback\<close>

text \<open>
  What the environment answers during one run of \<open>synthesizeSpeech\<close>: whether an
  \<open>AudioContext\<close> can be constructed, how the request to \<open>/api/tts\<close> comes back
  (the body is \<open>None\<close> when \<open>arrayBuffer()\<close> rejects), whether the bytes
  decode, and the three clock readings.
\<close>

record synth_env =
  context_constructible :: bool
  tts_reply :: "nat list option fetched"
  decodable :: bool
  saved_at :: nat
  id_now :: nat
  history_at :: nat

definition initAudioContext :: "bool \<Rightarrow> audio \<Rightarrow> audio option" where
  "initAudioContext constructible a =
     (if \<not> audioContext a then
        (if constructible then Some (a\<lparr>audioContext := True, gain := 1\<rparr>) else None)
      else Some a)"

definition tts_request_of :: "app \<Rightarrow> tts_request" where
  "tts_request_of s = \<lparr>req_text = app_text s, req_voiceId = selectedVoice s,
     req_stability = first (app_stability s), req_similarity_boost = first (app_similarity s),
     req_style = first (app_style s), req_use_speaker_boost = speakerBoost s\<rparr>"

definition newSavedAudio :: "synth_env \<Rightarrow> nat list \<Rightarrow> app \<Rightarrow> SavedAudio" where
  "newSavedAudio env bytes s = \<lparr>blob = bytes, saved_text = app_text s,
     saved_voiceId = selectedVoice s, saved_timestamp = saved_at env\<rparr>"

definition newHistoryItem :: "synth_env \<Rightarrow> app \<Rightarrow> AudioHistory" where
  "newHistoryItem env s = \<lparr>h_id = toString (id_now env), h_text = app_text s,
     h_voiceId = selectedVoice s,
     h_voiceName =
       (case find (\<lambda>v. voice_id v = selectedVoice s) (voices s) of
          None \<Rightarrow> ascii ''Unknown Voice''
        | Some v \<Rightarrow> if name v = [] then ascii ''Unknown Voice'' else name v),
     h_timestamp = history_at env, h_duration = estimatedDuration s\<rparr>"

text \<open>
  The block under \<open>// Play the audio\<close>. \<open>stop()\<close> throws on a source that was
  never started; a rejected decode and a refused gain value throw as well, each leaving
  what was done before it in place.
\<close>

definition stop_previous :: "app \<Rightarrow> error option \<times> app \<times> effect list" where
  "stop_previous s =
     (case sourceRef s of
        None \<Rightarrow> (None, s, [])
      | Some old \<Rightarrow>
          if old \<in> started (web_audio s) then
            (None,
             s\<lparr>web_audio := (web_audio s)\<lparr>stopped := insert old (stopped (web_audio s)),
                  connected := connected (web_audio s) - {old}\<rparr>\<rparr>,
             [SourceStop old, SourceDisconnect old])
          else (Some InvalidStateError, s, []))"

definition start_source :: "jsnum list \<Rightarrow> app \<Rightarrow> error option \<times> app \<times> effect list" where
  "start_source vol s =
     (let n = nextSource (web_audio s);
          s1 = s\<lparr>sourceRef := Some n,
                 web_audio := (web_audio s)\<lparr>nextSource := Suc n,
                   connected := insert n (connected (web_audio s))\<rparr>\<rparr>
      in case first vol of
           Undefined \<Rightarrow> (Some NonFiniteGain, s1, [CreateBufferSource n, SourceConnect n])
         | Num v \<Rightarrow>
             (None,
              s1\<lparr>web_audio := (web_audio s1)\<lparr>gain := v / 100,
                   started := insert n (started (web_audio s1))\<rparr>\<rparr>,
              [CreateBufferSource n, SourceConnect n, SetGain (v / 100), SourceStart n,
               Toast (ascii ''Success'') (ascii ''Audio generated successfully!'') False]))"

definition play :: "bool \<Rightarrow> jsnum list \<Rightarrow> app \<Rightarrow> error option \<times> app \<times> effect list" where
  "play decodes vol s =
     (if audioContext (web_audio s) then
        (case stop_previous s of
           (Some e, s1, tr1) \<Rightarrow> (Some e, s1, tr1)
         | (None, s1, tr1) \<Rightarrow>
             if \<not> decodes then (Some DecodeError, s1, tr1 @ [DecodeAudioData])
             else
               (case start_source vol s1 of
                  (e, s2, tr2) \<Rightarrow> (e, s2, tr1 @ [DecodeAudioData] @ tr2)))
      else (None, s, []))"

text \<open>
  The \<open>try\<close> block. The values it reads after an \<open>await\<close> (text, voice, voices,
  duration, volume) are those of the render that created the handler, that is, of the
  state \<open>s\<close> it was called in.
\<close>

definition synthesize_try :: "synth_env \<Rightarrow> app \<Rightarrow> error option \<times> app \<times> effect list" where
  "synthesize_try env s =
     (let s1 = s\<lparr>isLoading := True, isPlaying := True\<rparr> in
      case initAudioContext (context_constructible env) (web_audio s1) of
        None \<Rightarrow> (Some AudioContextUnavailable, s1, [])
      | Some a \<Rightarrow>
          (let s2 = s1\<lparr>web_audio := a\<rparr>; tr = [FetchTTS (tts_request_of s)] in
           case tts_reply env of
             Rejected msg \<Rightarrow> (Some FetchFailed, s2, tr)
           | Response ok body \<Rightarrow>
               if \<not> ok then (Some FailedToGenerateSpeech, s2, tr)
               else
                 (case body of
                    None \<Rightarrow> (Some BodyUnreadable, s2, tr)
                  | Some bytes \<Rightarrow>
                      (let s3 = s2\<lparr>savedAudio := Some (newSavedAudio env bytes s)\<rparr>;
                           s4 = s3\<lparr>audioHistory :=
                                  take 10 (newHistoryItem env s # audioHistory s3)\<rparr>
                       in case play (decodable env) (volume s) s4 of
                            (e, s5, tr5) \<Rightarrow>
                              (e, s5,
                               tr @ [SetSavedAudio (newSavedAudio env bytes s),
                                     SetAudioHistory (newHistoryItem env s)] @ tr5)))))"

definition synthesizeSpeech :: "synth_env \<Rightarrow> app \<Rightarrow> app \<times> effect list" where
  "synthesizeSpeech env s =
     (if trim (app_text s) = [] then
        (s, [Toast (ascii ''Error'') (ascii ''Please enter some text to convert to speech'')
               True])
      else
        (case synthesize_try env s of
           (None, s1, tr) \<Rightarrow> (s1\<lparr>isLoading := False\<rparr>, tr)
         | (Some e, s1, tr) \<Rightarrow>
             (s1\<lparr>isPlaying := False, isLoading := False\<rparr>,
              tr @ [ConsoleError (ascii ''Error synthesizing speech:''),
                    Toast (ascii ''Error'')
                      (ascii ''Failed to generate speech. Please try again.'') True])))"

text \<open>
  The Generate button: rendered only while nothing plays (the Stop button takes its
  place otherwise), and disabled while a request is loading, the text is blank or no
  voice is selected.
\<close>

definition generate_disabled :: "app \<Rightarrow> bool" where
  "generate_disabled s = (isLoading s \<or> trim (app_text s) = [] \<or> selectedVoice s = [])"

definition click_generate :: "synth_env \<Rightarrow> app \<Rightarrow> app \<times> effect list" where
  "click_generate env s =
     (if isPlaying s \<or> generate_disabled s then (s, []) else synthesizeSpeech env s)"

definition stopSpeech :: "app \<Rightarrow> error option \<times> app \<times> effect list" where
  "stopSpeech s =
     (case stop_previous s of
        (Some e, s1, tr) \<Rightarrow> (Some e, s1, tr)
      | (None, s1, tr) \<Rightarrow> (None, s1\<lparr>sourceRef := None, isPlaying := False\<rparr>, tr))"

text \<open>The \<open>onended\<close> callback of source \<open>n\<close>, run when that source has fallen silent.\<close>

definition source_ended :: "nat \<Rightarrow> app \<Rightarrow> app" where
  "source_ended n s =
     s\<lparr>isPlaying := False, sourceRef := None,
       web_audio := (web_audio s)\<lparr>stopped := insert n (stopped (web_audio s))\<rparr>\<rparr>"

text \<open>
  The sources that sound: started, not stopped, and connected to the gain node. The
  playback invariant: only the source behind the handle can be one of them, and the
  names of sources not yet created are unused.
\<close>

definition audible :: "audio \<Rightarrow> nat set" where
  "audible a = (started a - stopped a) \<inter> connected a"

definition one_source :: "app \<Rightarrow> bool" where
  "one_source s =
     (started (web_audio s) - stopped (web_audio s) \<subseteq> set_option (sourceRef s)
      \<and> (\<forall>n \<in> started (web_audio s) \<union> stopped (web_audio s) \<union> set_option (sourceRef s).
            n < nextSource (web_audio s)))"


section \<open>Voice cloning and deletion\<close>

definition resetRecording :: "app \<Rightarrow> app \<times> effect list" where
  "resetRecording s =
     (s\<lparr>recordedAudio := None, audioURL := None, recordingDuration := 0, isPlaying := False\<rparr>,
      if audioRef s then [PreviewPause] else [])"

text \<open>
  The JSON body of the answer of \<open>/api/clone-voice\<close>: unreadable (\<open>json()\<close>
  rejects with a message), or an object of which the handler reads \<open>voice_id\<close> and
  \<open>error\<close>, either of which may be absent.
\<close>

datatype clone_body = Unparsable jsstring | Parsed "jsstring option" "jsstring option"

text \<open>\<open>x || d\<close> on an optional string: absent and empty are both falsy.\<close>

definition or_else :: "jsstring option \<Rightarrow> jsstring \<Rightarrow> jsstring" where
  "or_else x d = (case x of None \<Rightarrow> d | Some v \<Rightarrow> if v = [] then d else v)"

text \<open>
  \<open>fileOrBlob instanceof Blob\<close>: a \<open>File\<close> is a \<open>Blob\<close>, so the test holds for
  both kinds of sample and the uploaded part is always named \<open>recorded-audio.wav\<close>.
\<close>

definition instanceof_Blob :: "sample \<Rightarrow> bool" where
  "instanceof_Blob x = (case x of UploadedFile _ _ \<Rightarrow> True | RecordedBlob _ \<Rightarrow> True)"

definition form_file_name :: "sample \<Rightarrow> jsstring" where
  "form_file_name x =
     (if instanceof_Blob x then ascii ''recorded-audio.wav''
      else (case x of UploadedFile fname _ \<Rightarrow> fname | RecordedBlob _ \<Rightarrow> []))"

text \<open>
  The callback of the progress timer, \<open>setUploadProgress((prev) => Math.min(prev + 10,
  90))\<close>, which the browser runs every 500 ms for as long as a timer is live.
\<close>

definition progress_tick :: "app \<Rightarrow> app" where
  "progress_tick s =
     (if progressIntervals s = 0 then s
      else s\<lparr>uploadProgress := min (uploadProgress s + 10) 90\<rparr>)"

text \<open>
  What the environment does during one run of \<open>handleVoiceCloning\<close>: how the request
  to \<open>/api/clone-voice\<close> comes back, and how many timer callbacks run while the
  handler waits for the response and then for its body.
\<close>

record clone_env =
  clone_reply :: "clone_body fetched"
  fetch_ticks :: nat
  json_ticks :: nat

text \<open>
  The \<open>try\<close> block of \<open>handleVoiceCloning\<close>; it returns the message of the error
  it throws, if any. The timer is started before the request is sent. It is stopped by
  the \<open>clearInterval\<close> that follows the \<open>await fetch\<close>, which a rejected request
  never reaches.
\<close>

definition clone_try ::
  "clone_env \<Rightarrow> sample \<Rightarrow> jsstring \<Rightarrow> app \<Rightarrow> jsstring option \<times> app \<times> effect list" where
  "clone_try env fileOrBlob nm s =
     (let s0 = s\<lparr>isCloning := True, uploadProgress := 0\<rparr>;
          s1 = (progress_tick ^^ fetch_ticks env)
                 (s0\<lparr>progressIntervals := Suc (progressIntervals s0)\<rparr>);
          tr0 = [SetInterval, FetchClone nm (form_file_name fileOrBlob)]
      in case clone_reply env of
           Rejected msg \<Rightarrow> (Some msg, s1, tr0)
         | Response ok body \<Rightarrow>
             (let s2 = (progress_tick ^^ json_ticks env)
                         (s1\<lparr>progressIntervals := progressIntervals s1 - 1,
                             uploadProgress := 100\<rparr>);
                  tr1 = tr0 @ [ClearInterval]
              in case body of
                Unparsable msg \<Rightarrow> (Some msg, s2, tr1)
              | Parsed vid err \<Rightarrow>
                  if \<not> ok then (Some (or_else err (ascii ''Failed to clone voice'')), s2, tr1)
                  else if or_else vid [] = [] then
                    (Some (ascii ''Invalid response from voice cloning service''), s2, tr1)
                  else
                    (None,
                     s2\<lparr>voices := voices s2 @ [\<lparr>voice_id = or_else vid [], name = nm,
                                                 category = ascii ''custom''\<rparr>],
                        selectedVoice := or_else vid [], isVoiceDialogOpen := False\<rparr>,
                     tr1 @ [Toast (ascii ''Success'')
                              (ascii ''Voice cloned successfully! The new voice is now available.'')
                              False])))"

text \<open>
  The \<open>catch\<close> and \<open>finally\<close> blocks. The \<open>clearInterval\<close> of the \<open>catch\<close>
  block is guarded by the outer \<open>progressInterval\<close>, a constant that is \<open>null\<close>
  (the timer's identifier is held by the constant of the same name inside the \<open>try\<close>
  block), so it never runs and stops no timer.
\<close>

definition handleVoiceCloning ::
  "clone_env \<Rightarrow> sample \<Rightarrow> jsstring \<Rightarrow> app \<Rightarrow> app \<times> effect list" where
  "handleVoiceCloning env fileOrBlob nm s =
     (case clone_try env fileOrBlob nm s of
        (thrown, s1, tr1) \<Rightarrow>
          (let (s2, tr2) =
                 (case thrown of
                    None \<Rightarrow> (s1, tr1)
                  | Some msg \<Rightarrow>
                      (s1\<lparr>uploadProgress := 0\<rparr>,
                       tr1 @ [ConsoleError (ascii ''Voice cloning error:''),
                              Toast (ascii ''Error'')
                                (or_else (Some msg)
                                   (ascii ''Failed to clone voice. Please try again.''))
                                True]));
               s3 = s2\<lparr>isCloning := False, selectedFile := None, voiceName := [],
                      uploadProgress := 0\<rparr>
           in case resetRecording s3 of (s4, tr4) \<Rightarrow> (s4, tr2 @ tr4)))"

text \<open>
  The submit handler of the cloning form calls \<open>handleVoiceCloning\<close> only with a name
  and a sample: the chosen file if there is one, the recording otherwise.
\<close>

definition submit_clone :: "clone_env \<Rightarrow> app \<Rightarrow> app \<times> effect list" where
  "submit_clone env s =
     (if voiceName s \<noteq> [] then
        (case selectedFile s of
           Some f \<Rightarrow> handleVoiceCloning env f (voiceName s) s
         | None \<Rightarrow>
             (case recordedAudio s of
                Some b \<Rightarrow> handleVoiceCloning env (RecordedBlob b) (voiceName s) s
              | None \<Rightarrow> (s, [])))
      else (s, []))"

text \<open>
  \<open>handleDeleteVoice\<close>: the body of the answer is not read, so the reply carries
  none.
\<close>

definition handleDeleteVoice :: "unit fetched \<Rightarrow> jsstring \<Rightarrow> app \<Rightarrow> app \<times> effect list" where
  "handleDeleteVoice reply voiceId s =
     (let failed =
            (s, [FetchDelete voiceId, ConsoleError (ascii ''Error deleting voice:''),
                 Toast (ascii ''Error'') (ascii ''Failed to delete voice. Please try again.'')
                   True])
      in case reply of
           Rejected msg \<Rightarrow> failed
         | Response ok u \<Rightarrow>
             if \<not> ok then failed
             else
               (s\<lparr>voices := filter (\<lambda>voice. voice_id voice \<noteq> voiceId) (voices s),
                  selectedVoice := (if selectedVoice s = voiceId then [] else selectedVoice s)\<rparr>,
                [FetchDelete voiceId,
                 Toast (ascii ''Success'') (ascii ''Voice deleted successfully'') False]))"

section \<open>The text-to-speech proxy route\<close>

text \<open>
  JSON values as the route destructures them from the request body; \<open>JUndefined\<close>
  stands for an absent key, which \<open>JSON.stringify\<close> leaves out again.
\<close>

datatype json = JUndefined | JNull | JBool bool | JNumber real | JString jsstring

record tts_body =
  b_text :: json
  b_voiceId :: json
  b_modelId :: json
  b_stability :: json
  b_similarity_boost :: json
  b_style :: json
  b_use_speaker_boost :: json

text \<open>
  \<open>await request.json()\<close>: it rejects, or yields \<open>null\<close> (which cannot be
  destructured), or a value whose keys are read.
\<close>

datatype request_json = NotJson | IsNull | IsObject tts_body

record voice_settings =
  vs_stability :: json
  vs_similarity_boost :: json
  vs_style :: json
  vs_use_speaker_boost :: json

text \<open>
  The request sent to the Gateway: the value spliced into the path after
  \<open>/v1/text-to-speech/\<close>, the \<open>xi-api-key\<close> header and the JSON body.
\<close>

record gateway_request =
  gw_voice :: json
  gw_api_key :: jsstring
  gw_text :: json
  gw_model_id :: json
  gw_voice_settings :: voice_settings

datatype http_response =
    AudioResponse "nat list" jsstring nat
  | JsonError jsstring nat

text \<open>A destructuring default applies exactly when the key is \<open>undefined\<close>.\<close>

definition with_default :: "json \<Rightarrow> json \<Rightarrow> json" where
  "with_default v d = (if v = JUndefined then d else v)"

definition tts_failure :: http_response where
  "tts_failure = JsonError (ascii ''Failed to convert text to speech'') 500"

definition relay_audio :: "nat list option fetched \<Rightarrow> http_response" where
  "relay_audio reply =
     (case reply of
        Rejected msg \<Rightarrow> tts_failure
      | Response ok body \<Rightarrow>
          if \<not> ok then tts_failure
          else (case body of
                  None \<Rightarrow> tts_failure
                | Some bytes \<Rightarrow> AudioResponse bytes (ascii ''audio/mpeg'') (length bytes)))"

text \<open>
  \<open>POST\<close> of \<open>src/app/api/tts/route.ts\<close>. It returns the request it sent to the
  Gateway, if it got that far, and its own response.
\<close>

definition tts_route_POST ::
  "jsstring option \<Rightarrow> request_json \<Rightarrow> nat list option fetched
     \<Rightarrow> gateway_request option \<times> http_response" where
  "tts_route_POST apiKey request reply =
     (if or_else apiKey [] = [] then (None, tts_failure)
      else
        (case request of
           NotJson \<Rightarrow> (None, tts_failure)
         | IsNull \<Rightarrow> (None, tts_failure)
         | IsObject body \<Rightarrow>
             (Some \<lparr>gw_voice = b_voiceId body, gw_api_key = or_else apiKey [],
                     gw_text = b_text body,
                     gw_model_id =
                       with_default (b_modelId body) (JString (ascii ''eleven_monolingual_v1'')),
                     gw_voice_settings =
                       \<lparr>vs_stability = JNumber 0.5, vs_similarity_boost = JNumber 0.5,
                        vs_style = JUndefined, vs_use_speaker_boost = JUndefined\<rparr>\<rparr>,
              relay_audio reply)))"

text \<open>
  The second \<open>POST\<close> handler for the same path (the one headed
  \<open>// app/api/tts/route.ts\<close>), which reads the four settings from the body.
\<close>

definition tts_route_POST_settings ::
  "jsstring option \<Rightarrow> request_json \<Rightarrow> nat list option fetched
     \<Rightarrow> gateway_request option \<times> http_response" where
  "tts_route_POST_settings apiKey request reply =
     (if or_else apiKey [] = [] then (None, tts_failure)
      else
        (case request of
           NotJson \<Rightarrow> (None, tts_failure)
         | IsNull \<Rightarrow> (None, tts_failure)
         | IsObject body \<Rightarrow>
             (Some \<lparr>gw_voice = b_voiceId body, gw_api_key = or_else apiKey [],
                     gw_text = b_text body,
                     gw_model_id =
                       with_default (b_modelId body) (JString (ascii ''eleven_multilingual_v2'')),
                     gw_voice_settings =
                       \<lparr>vs_stability = b_stability body,
                        vs_similarity_boost = b_similarity_boost body,
                        vs_style = with_default (b_style body) (JNumber 0),
                        vs_use_speaker_boost =
                          with_default (b_use_speaker_boost body) (JBool True)\<rparr>\<rparr>,
              relay_audio reply)))"


section \<open>Example inputs\<close>

text \<open>
  A fresh component with a text typed in and no voice selected, and three ways the
  environment can answer a synthesis: the request is rejected; the audio arrives and
  cannot be decoded; the audio arrives and plays.
\<close>

definition hello_state :: app where
  "hello_state = init_app\<lparr>app_text := ascii ''Hello world''\<rparr>"

definition failing_env :: synth_env where
  "failing_env = \<lparr>context_constructible = True, tts_reply = Rejected [], decodable = True,
     saved_at = 1, id_now = 2, history_at = 3\<rparr>"

definition undecodable_env :: synth_env where
  "undecodable_env = \<lparr>context_constructible = True,
     tts_reply = Response True (Some [73, 68, 51]), decodable = False,
     saved_at = 1, id_now = 2, history_at = 3\<rparr>"

definition playing_env :: synth_env where
  "playing_env = \<lparr>context_constructible = True,
     tts_reply = Response True (Some [73, 68, 51]), decodable = True,
     saved_at = 1, id_now = 2, history_at = 3\<rparr>"

text \<open>The component after one synthesis that plays: source 0 sounds.\<close>

definition playing_state :: app where
  "playing_state = fst (synthesizeSpeech playing_env hello_state)"

text \<open>A history that is full: ten entries, the newest first.\<close>

definition entry :: "nat \<Rightarrow> AudioHistory" where
  "entry k = \<lparr>h_id = [48 + k], h_text = ascii ''Hello world'', h_voiceId = [],
     h_voiceName = ascii ''Unknown Voice'', h_timestamp = k, h_duration = 0\<rparr>"

definition full_history_state :: app where
  "full_history_state =
     hello_state\<lparr>audioHistory := map entry [9, 8, 7, 6, 5, 4, 3, 2, 1, 0]\<rparr>"

text \<open>Settings moved away from their defaults, with a voice selected.\<close>

definition tuned_state :: app where
  "tuned_state = init_app\<lparr>selectedVoice := ascii ''v1'', app_stability := [Num 0.3],
     app_similarity := [Num 0.9], app_style := [Num 0.2], speakerBoost := False\<rparr>"

definition two_voices :: app where
  "two_voices = init_app\<lparr>voices :=
       [\<lparr>voice_id = ascii ''v1'', name = ascii ''Rachel'', category = ascii ''premade''\<rparr>,
        \<lparr>voice_id = ascii ''v2'', name = ascii ''Mine'', category = ascii ''custom''\<rparr>],
     selectedVoice := ascii ''v2''\<rparr>"

text \<open>The cloning dialog filled in: a name, a chosen file and a finished recording.\<close>

definition take_file :: sample where
  "take_file = UploadedFile (ascii ''take.mp3'') [1, 2, 3]"

definition cloning_form :: app where
  "cloning_form = init_app\<lparr>voiceName := ascii ''Mine'', selectedFile := Some take_file,
     recordedAudio := Some [4, 5], audioURL := Some (ascii ''blob:1''), recordingDuration := 7,
     uploadProgress := 40\<rparr>"

text \<open>A request body for the proxy route with all four settings set.\<close>

definition posted_body :: tts_body where
  "posted_body = \<lparr>b_text = JString (ascii ''Hello world''), b_voiceId = JString (ascii ''v1''),
     b_modelId = JUndefined, b_stability = JNumber 0.9, b_similarity_boost = JNumber 0.1,
     b_style = JNumber 0.3, b_use_speaker_boost = JBool False\<rparr>"

text \<open>
  The playing component after a second synthesis, which preempts source 0 with source
  1, and then after the \<open>onended\<close> callback of the stopped source 0 has run.
\<close>

definition preempted_state :: app where
  "preempted_state = fst (synthesizeSpeech playing_env playing_state)"

definition orphaned_state :: app where
  "orphaned_state = source_ended 0 preempted_state"

text \<open>
  A component that already stores a preset whose identifier is the decimal string of
  the clock reading 2.
\<close>

definition clash_state :: app where
  "clash_state = tuned_state\<lparr>presets :=
     [\<lparr>preset_id = ascii ''2'', preset_name = ascii ''Old'', preset_voiceId = ascii ''v0'',
       preset_settings = \<lparr>stability = Num 1, similarity = Num 1, style = Num 1,
         use_speaker_boost = True\<rparr>\<rparr>]\<rparr>"

text \<open>
  Two answers to a cloning request, each after three ticks of the progress timer: the
  request is rejected; the voice is created.
\<close>

definition rejected_clone :: clone_env where
  "rejected_clone = \<lparr>clone_reply = Rejected (ascii ''Failed to fetch''), fetch_ticks = 3,
     json_ticks = 0\<rparr>"

definition accepted_clone :: clone_env where
  "accepted_clone = \<lparr>clone_reply = Response True (Parsed (Some (ascii ''v9'')) None),
     fetch_ticks = 3, json_ticks = 0\<rparr>"

section \<open>Auxiliary facts\<close>

subsection \<open>Strings and lists\<close>

lemma trim_empty_iff: "trim t = [] \<longleftrightarrow> (\<forall>c \<in> set t. is_js_whitespace c)"
proof
  assume "trim t = []"
  then have "dropWhile is_js_whitespace (rev (dropWhile is_js_whitespace t)) = []"
    by (simp add: trim_def)
  then have "\<forall>c \<in> set (rev (dropWhile is_js_whitespace t)). is_js_whitespace c"
    by (simp add: dropWhile_eq_Nil_conv)
  then have "dropWhile is_js_whitespace t = []"
    by (metis dropWhile_eq_Nil_conv hd_dropWhile list.set_sel(1) set_rev)
  then show "\<forall>c \<in> set t. is_js_whitespace c"
    by (simp add: dropWhile_eq_Nil_conv)
next
  assume "\<forall>c \<in> set t. is_js_whitespace c"
  then have "dropWhile is_js_whitespace t = []"
    by (simp add: dropWhile_eq_Nil_conv)
  then show "trim t = []"
    by (simp add: trim_def del: dropWhile_eq_Nil_conv)
qed

lemma trim_hello: "trim (ascii ''Hello world'') \<noteq> []"
  by (simp add: trim_def ascii_def is_js_whitespace_def)

lemma trim_calm: "trim (ascii ''Calm'') \<noteq> []"
  by (simp add: trim_def ascii_def is_js_whitespace_def)

lemma toString_2: "toString 2 = [50]"
  by (subst toString.simps) simp

lemma find_none_fresh: "\<forall>y \<in> set xs. \<not> P y \<Longrightarrow> find P xs = None"
  by (induction xs) auto

lemma find_snoc_fresh: "\<forall>y \<in> set xs. \<not> P y \<Longrightarrow> P x \<Longrightarrow> find P (xs @ [x]) = Some x"
  by (induction xs) auto

lemma take_10_full: "length xs = 10 \<Longrightarrow> take 10 (x # xs) = x # butlast xs"
  by (simp add: butlast_conv_take numeral_eq_Suc)

subsection \<open>The playback block\<close>

lemmas playback_defs = play_def stop_previous_def start_source_def

lemma play_keeps_records:
  "play d vol s = (e, s', tr) \<Longrightarrow>
     audioHistory s' = audioHistory s \<and> savedAudio s' = savedAudio s"
  by (auto simp: playback_defs Let_def
      split: if_splits option.splits jsnum.splits prod.splits)

lemma play_trace_records:
  "play d vol s = (e, s', tr) \<Longrightarrow>
     (\<forall>a. SetSavedAudio a \<notin> set tr) \<and> (\<forall>h. SetAudioHistory h \<notin> set tr)"
  by (auto simp: playback_defs Let_def
      split: if_splits option.splits jsnum.splits prod.splits)

text \<open>A run of the block that starts a source went all the way, and this is what it did.\<close>

lemma play_started:
  assumes "play d vol s = (e, s', tr)" and "SourceStart n \<in> set tr"
  shows "\<exists>v. first vol = Num v \<and> e = None \<and> n = nextSource (web_audio s)
     \<and> tr = (case sourceRef s of None \<Rightarrow> [] | Some old \<Rightarrow> [SourceStop old, SourceDisconnect old])
          @ [DecodeAudioData, CreateBufferSource n, SourceConnect n, SetGain (v / 100),
             SourceStart n,
             Toast (ascii ''Success'') (ascii ''Audio generated successfully!'') False]
     \<and> sourceRef s' = Some n
     \<and> started (web_audio s') = insert n (started (web_audio s))
     \<and> stopped (web_audio s') = set_option (sourceRef s) \<union> stopped (web_audio s)
     \<and> connected (web_audio s') = insert n (connected (web_audio s) - set_option (sourceRef s))
     \<and> nextSource (web_audio s') = Suc n"
  using assms
  by (auto simp: playback_defs Let_def split: if_splits option.splits jsnum.splits prod.splits)

lemma play_one_source:
  assumes "play d vol s = (e, s', tr)" and "one_source s"
  shows "one_source s'"
  using assms
  by (auto simp: playback_defs one_source_def Let_def less_Suc_eq
      split: if_splits option.splits jsnum.splits prod.splits)

lemma stopSpeech_one_source: "one_source s \<Longrightarrow> one_source (fst (snd (stopSpeech s)))"
  by (auto simp: stopSpeech_def stop_previous_def one_source_def split: option.splits)

lemma stopSpeech_idle:
  "sourceRef s = None \<Longrightarrow> stopSpeech s = (None, s\<lparr>isPlaying := False\<rparr>, [])"
  by (cases s) (simp add: stopSpeech_def stop_previous_def)

lemma stopSpeech_idle_silent:
  "sourceRef s = None \<Longrightarrow> \<not> isPlaying s \<Longrightarrow> stopSpeech s = (None, s, [])"
  by (cases s) (simp add: stopSpeech_def stop_previous_def)

text \<open>
  Natural completion: when the source behind the handle runs out, its callback clears
  the handle and nothing sounds any more.
\<close>

lemma source_ended_one_source:
  "one_source s \<Longrightarrow> sourceRef s = Some n \<Longrightarrow>
     one_source (source_ended n s) \<and> audible (web_audio (source_ended n s)) = {}
     \<and> sourceRef (source_ended n s) = None \<and> \<not> isPlaying (source_ended n s)"
  by (auto simp: source_ended_def one_source_def audible_def)

subsection \<open>The shape of a synthesis\<close>

lemma init_available:
  "audioContext a \<or> c \<Longrightarrow> \<exists>a'. initAudioContext c a = Some a' \<and> audioContext a'"
  by (auto simp: initAudioContext_def)

lemma init_frame:
  "initAudioContext c a = Some a' \<Longrightarrow>
     started a' = started a \<and> stopped a' = stopped a \<and> nextSource a' = nextSource a
     \<and> connected a' = connected a \<and> audioContext a'"
  by (auto simp: initAudioContext_def split: if_splits)

text \<open>
  The \<open>try\<close> block either throws before the audio arrived, having touched no source,
  or it recorded the synthesis and ran the playback block.
\<close>

lemma synthesize_try_elim:
  assumes "synthesize_try env s = (e, s', tr)"
  obtains (early) "web_audio s' = web_audio s \<or>
        initAudioContext (context_constructible env) (web_audio s) = Some (web_audio s')"
      and "sourceRef s' = sourceRef s" and "\<forall>n. SourceStart n \<notin> set tr" and "e \<noteq> None"
  | (played) a bytes tr5 where
      "initAudioContext (context_constructible env) (web_audio s) = Some a"
      and "tts_reply env = Response True (Some bytes)"
      and "play (decodable env) (volume s)
             (s\<lparr>isLoading := True, isPlaying := True, web_audio := a,
                savedAudio := Some (newSavedAudio env bytes s),
                audioHistory := take 10 (newHistoryItem env s # audioHistory s)\<rparr>) = (e, s', tr5)"
      and "tr = [FetchTTS (tts_request_of s), SetSavedAudio (newSavedAudio env bytes s),
                 SetAudioHistory (newHistoryItem env s)] @ tr5"
  using assms unfolding synthesize_try_def Let_def
  by (auto split: option.splits fetched.splits if_splits prod.splits)

text \<open>
  A synthesis whose request is answered with audio: the request, then the artifact,
  then the history entry, then whatever playback does.
\<close>

lemma synthesize_try_success:
  assumes ctx: "audioContext (web_audio s) \<or> context_constructible env"
    and reply: "tts_reply env = Response True (Some bytes)"
  shows "\<exists>e s' tr.
     synthesize_try env s =
       (e, s', [FetchTTS (tts_request_of s), SetSavedAudio (newSavedAudio env bytes s),
                SetAudioHistory (newHistoryItem env s)] @ tr)
     \<and> (\<forall>a. SetSavedAudio a \<notin> set tr) \<and> (\<forall>h. SetAudioHistory h \<notin> set tr)
     \<and> savedAudio s' = Some (newSavedAudio env bytes s)
     \<and> audioHistory s' = take 10 (newHistoryItem env s # audioHistory s)"
proof -
  from ctx obtain a where a: "initAudioContext (context_constructible env) (web_audio s) = Some a"
    using init_available by blast
  define s4 where "s4 = s\<lparr>isLoading := True, isPlaying := True, web_audio := a,
      savedAudio := Some (newSavedAudio env bytes s),
      audioHistory := take 10 (newHistoryItem env s # audioHistory s)\<rparr>"
  obtain e s5 tr5 where p: "play (decodable env) (volume s) s4 = (e, s5, tr5)"
    by (metis prod_cases3)
  have "synthesize_try env s =
       (e, s5, [FetchTTS (tts_request_of s), SetSavedAudio (newSavedAudio env bytes s),
                SetAudioHistory (newHistoryItem env s)] @ tr5)"
    using a reply p by (simp add: synthesize_try_def Let_def s4_def)
  moreover have "savedAudio s5 = Some (newSavedAudio env bytes s)"
    "audioHistory s5 = take 10 (newHistoryItem env s # audioHistory s)"
    using play_keeps_records [OF p] by (simp_all add: s4_def)
  ultimately show ?thesis
    using play_trace_records [OF p] by blast
qed

lemma synthesize_success:
  assumes nonblank: "trim (app_text s) \<noteq> []"
    and ctx: "audioContext (web_audio s) \<or> context_constructible env"
    and reply: "tts_reply env = Response True (Some bytes)"
  shows "\<exists>tr.
     snd (synthesizeSpeech env s) =
       [FetchTTS (tts_request_of s), SetSavedAudio (newSavedAudio env bytes s),
        SetAudioHistory (newHistoryItem env s)] @ tr
     \<and> (\<forall>a. SetSavedAudio a \<notin> set tr) \<and> (\<forall>h. SetAudioHistory h \<notin> set tr)
     \<and> savedAudio (fst (synthesizeSpeech env s)) = Some (newSavedAudio env bytes s)
     \<and> audioHistory (fst (synthesizeSpeech env s)) =
         take 10 (newHistoryItem env s # audioHistory s)"
proof -
  from synthesize_try_success [OF ctx reply] obtain e s' tr where
    t: "synthesize_try env s =
       (e, s', [FetchTTS (tts_request_of s), SetSavedAudio (newSavedAudio env bytes s),
                SetAudioHistory (newHistoryItem env s)] @ tr)"
    and tr: "(\<forall>a. SetSavedAudio a \<notin> set tr) \<and> (\<forall>h. SetAudioHistory h \<notin> set tr)"
    and st: "savedAudio s' = Some (newSavedAudio env bytes s)"
      "audioHistory s' = take 10 (newHistoryItem env s # audioHistory s)"
    by blast
  show ?thesis
  proof (cases e)
    case None
    with t nonblank tr st show ?thesis
      by (simp add: synthesizeSpeech_def)
  next
    case (Some err)
    with t nonblank tr st show ?thesis
      by (simp add: synthesizeSpeech_def)
  qed
qed

lemma synthesize_try_one_source:
  assumes t: "synthesize_try env s = (e, s', tr)" and inv: "one_source s"
  shows "one_source s'"
  using t
proof (cases rule: synthesize_try_elim)
  case early
  then show ?thesis
    using inv init_frame [of "context_constructible env" "web_audio s" "web_audio s'"]
    by (auto simp: one_source_def)
next
  case (played a bytes tr5)
  have "one_source (s\<lparr>isLoading := True, isPlaying := True, web_audio := a,
                savedAudio := Some (newSavedAudio env bytes s),
                audioHistory := take 10 (newHistoryItem env s # audioHistory s)\<rparr>)"
    using inv init_frame [OF played(1)] by (simp add: one_source_def)
  with played(3) show ?thesis
    by (rule play_one_source)
qed

lemma synthesize_one_source:
  assumes "one_source s"
  shows "one_source (fst (synthesizeSpeech env s))"
proof -
  obtain e s' tr where t: "synthesize_try env s = (e, s', tr)"
    by (metis prod_cases3)
  have "one_source s'"
    using t assms by (rule synthesize_try_one_source)
  then have "one_source (s'\<lparr>isLoading := False\<rparr>)"
    "one_source (s'\<lparr>isPlaying := False, isLoading := False\<rparr>)"
    by (simp_all add: one_source_def)
  then show ?thesis
    using t assms by (simp add: synthesizeSpeech_def split: option.splits)
qed

text \<open>
  A synthesis that starts source \<open>n\<close>: where the start stands in the trace, relative
  to the stop and disconnect of the source held before, and what the audio side looks
  like afterwards.
\<close>

lemma synthesize_started:
  assumes st: "SourceStart n \<in> set (snd (synthesizeSpeech env s))"
  shows "\<exists>pre mid post.
     snd (synthesizeSpeech env s) =
       pre @ (case sourceRef s of None \<Rightarrow> [] | Some old \<Rightarrow> [SourceStop old, SourceDisconnect old])
         @ mid @ [SourceStart n] @ post
     \<and> (\<forall>m. SourceStart m \<notin> set pre \<union> set mid \<union> set post)
     \<and> sourceRef (fst (synthesizeSpeech env s)) = Some n
     \<and> started (web_audio (fst (synthesizeSpeech env s))) = insert n (started (web_audio s))
     \<and> stopped (web_audio (fst (synthesizeSpeech env s))) =
         set_option (sourceRef s) \<union> stopped (web_audio s)
     \<and> connected (web_audio (fst (synthesizeSpeech env s))) =
         insert n (connected (web_audio s) - set_option (sourceRef s))
     \<and> n = nextSource (web_audio s)"
proof -
  obtain e s' tr where t: "synthesize_try env s = (e, s', tr)"
    by (metis prod_cases3)
  have nonblank: "trim (app_text s) \<noteq> []"
    using st by (auto simp: synthesizeSpeech_def split: if_splits)
  have in_tr: "SourceStart n \<in> set tr"
    using st t nonblank by (auto simp: synthesizeSpeech_def split: option.splits)
  from t show ?thesis
  proof (cases rule: synthesize_try_elim)
    case early
    with in_tr show ?thesis by simp
  next
    case (played a bytes tr5)
    let ?s4 = "s\<lparr>isLoading := True, isPlaying := True, web_audio := a,
                savedAudio := Some (newSavedAudio env bytes s),
                audioHistory := take 10 (newHistoryItem env s # audioHistory s)\<rparr>"
    let ?pre = "[FetchTTS (tts_request_of s), SetSavedAudio (newSavedAudio env bytes s),
                 SetAudioHistory (newHistoryItem env s)]"
    from in_tr played(4) have "SourceStart n \<in> set tr5"
      by simp
    from play_started [OF played(3) this] obtain v where
      v: "first (volume s) = Num v" and e: "e = None" and n: "n = nextSource (web_audio ?s4)"
      and tr5: "tr5 = (case sourceRef ?s4 of None \<Rightarrow> []
                        | Some old \<Rightarrow> [SourceStop old, SourceDisconnect old])
          @ [DecodeAudioData, CreateBufferSource n, SourceConnect n, SetGain (v / 100),
             SourceStart n,
             Toast (ascii ''Success'') (ascii ''Audio generated successfully!'') False]"
      and s': "sourceRef s' = Some n"
        "started (web_audio s') = insert n (started (web_audio ?s4))"
        "stopped (web_audio s') = set_option (sourceRef ?s4) \<union> stopped (web_audio ?s4)"
        "connected (web_audio s') =
           insert n (connected (web_audio ?s4) - set_option (sourceRef ?s4))"
      by blast
    have final: "synthesizeSpeech env s = (s'\<lparr>isLoading := False\<rparr>, tr)"
      using t e nonblank by (simp add: synthesizeSpeech_def)
    let ?mid = "[DecodeAudioData, CreateBufferSource n, SourceConnect n, SetGain (v / 100)]"
    let ?post = "[Toast (ascii ''Success'') (ascii ''Audio generated successfully!'') False]"
    have shape: "snd (synthesizeSpeech env s) =
       ?pre @ (case sourceRef s of None \<Rightarrow> [] | Some old \<Rightarrow> [SourceStop old, SourceDisconnect old])
         @ ?mid @ [SourceStart n] @ ?post"
      using final played(4) tr5 by simp
    have none: "\<forall>m. SourceStart m \<notin> set ?pre \<union> set ?mid \<union> set ?post"
      by simp
    have state: "sourceRef (fst (synthesizeSpeech env s)) = Some n"
      "started (web_audio (fst (synthesizeSpeech env s))) = insert n (started (web_audio s))"
      "stopped (web_audio (fst (synthesizeSpeech env s))) =
         set_option (sourceRef s) \<union> stopped (web_audio s)"
      "connected (web_audio (fst (synthesizeSpeech env s))) =
         insert n (connected (web_audio s) - set_option (sourceRef s))"
      "n = nextSource (web_audio s)"
      using final s' n init_frame [OF played(1)] by simp_all
    from shape none state show ?thesis
      by blast
  qed
qed

subsection \<open>The example states\<close>

lemma playing_state_audio:
  "sourceRef playing_state = Some 0
   \<and> web_audio playing_state =
       \<lparr>audioContext = True, gain = 1 / 2, nextSource = 1, started = {0}, stopped = {},
        connected = {0}\<rparr>"
  by (simp add: playing_state_def synthesizeSpeech_def synthesize_try_def initAudioContext_def
      playback_defs first_def playing_env_def hello_state_def init_app_def init_audio_def
      trim_hello)

lemma playing_state_text:
  "app_text playing_state = ascii ''Hello world'' \<and> volume playing_state = [Num 50]"
  by (simp add: playing_state_def synthesizeSpeech_def synthesize_try_def initAudioContext_def
      playback_defs first_def playing_env_def hello_state_def init_app_def init_audio_def
      trim_hello)

lemma second_synthesis_trace:
  "snd (synthesizeSpeech playing_env playing_state) =
     [FetchTTS (tts_request_of playing_state),
      SetSavedAudio (newSavedAudio playing_env [73, 68, 51] playing_state),
      SetAudioHistory (newHistoryItem playing_env playing_state),
      SourceStop 0, SourceDisconnect 0, DecodeAudioData, CreateBufferSource 1, SourceConnect 1,
      SetGain (1 / 2), SourceStart 1,
      Toast (ascii ''Success'') (ascii ''Audio generated successfully!'') False]"
  using playing_state_audio playing_state_text
  by (simp add: synthesizeSpeech_def synthesize_try_def initAudioContext_def
      playback_defs first_def playing_env_def trim_hello)

lemma preempted_state_audio:
  "sourceRef preempted_state = Some 1
   \<and> web_audio preempted_state =
       \<lparr>audioContext = True, gain = 1 / 2, nextSource = 2, started = {1, 0}, stopped = {0},
        connected = {1}\<rparr>"
  using playing_state_audio playing_state_text
  by (simp add: preempted_state_def synthesizeSpeech_def synthesize_try_def
      initAudioContext_def playback_defs first_def playing_env_def trim_hello)

lemma preempted_state_text:
  "app_text preempted_state = ascii ''Hello world'' \<and> volume preempted_state = [Num 50]"
  using playing_state_audio playing_state_text
  by (simp add: preempted_state_def synthesizeSpeech_def synthesize_try_def
      initAudioContext_def playback_defs first_def playing_env_def trim_hello)

lemma orphaned_state_audio:
  "sourceRef orphaned_state = None
   \<and> web_audio orphaned_state =
       \<lparr>audioContext = True, gain = 1 / 2, nextSource = 2, started = {1, 0}, stopped = {0},
        connected = {1}\<rparr>
   \<and> app_text orphaned_state = ascii ''Hello world'' \<and> volume orphaned_state = [Num 50]"
  using preempted_state_audio preempted_state_text
  by (simp add: orphaned_state_def source_ended_def)

lemma third_synthesis_trace:
  "snd (synthesizeSpeech playing_env orphaned_state) =
     [FetchTTS (tts_request_of orphaned_state),
      SetSavedAudio (newSavedAudio playing_env [73, 68, 51] orphaned_state),
      SetAudioHistory (newHistoryItem playing_env orphaned_state),
      DecodeAudioData, CreateBufferSource 2, SourceConnect 2, SetGain (1 / 2), SourceStart 2,
      Toast (ascii ''Success'') (ascii ''Audio generated successfully!'') False]"
  using orphaned_state_audio
  by (simp add: synthesizeSpeech_def synthesize_try_def initAudioContext_def
      playback_defs first_def playing_env_def trim_hello)

lemma third_synthesis_audio:
  "web_audio (fst (synthesizeSpeech playing_env orphaned_state)) =
     \<lparr>audioContext = True, gain = 1 / 2, nextSource = 3, started = {2, 1, 0}, stopped = {0},
      connected = {2, 1}\<rparr>"
  using orphaned_state_audio
  by (simp add: synthesizeSpeech_def synthesize_try_def initAudioContext_def
      playback_defs first_def playing_env_def trim_hello)

lemma resetRecording_fields:
  "recordedAudio (fst (resetRecording s)) = None
   \<and> audioURL (fst (resetRecording s)) = None
   \<and> recordingDuration (fst (resetRecording s)) = 0
   \<and> selectedFile (fst (resetRecording s)) = selectedFile s
   \<and> voiceName (fst (resetRecording s)) = voiceName s
   \<and> uploadProgress (fst (resetRecording s)) = uploadProgress s
   \<and> isCloning (fst (resetRecording s)) = isCloning s"
  by (simp add: resetRecording_def)

section \<open>Validation before the request\<close>

text \<open>
  Claim C1, as the component has it. A text that is empty or consists of white space
  only makes \<open>synthesizeSpeech\<close> stop with the error notification, leave the state as
  it was and send nothing to \<open>/api/tts\<close>. The handler does not look at the voice: an
  unset voice is kept out by the Generate button, which is disabled then, so a click
  does nothing.
\<close>

theorem blank_text_rejected_locally:
  "((\<forall>c \<in> set (app_text s). is_js_whitespace c) \<longrightarrow>
      synthesizeSpeech env s =
        (s, [Toast (ascii ''Error'') (ascii ''Please enter some text to convert to speech'')
               True])
      \<and> (\<forall>r. FetchTTS r \<notin> set (snd (synthesizeSpeech env s))))
   \<and> (selectedVoice s = [] \<longrightarrow> click_generate env s = (s, []))"
  by (simp add: trim_empty_iff synthesizeSpeech_def click_generate_def generate_disabled_def)

theorem blank_text_rejected_locally_witness:
  "app_text (init_app\<lparr>app_text := ascii ''  ''\<rparr>) = [32, 32]
   \<and> selectedVoice (init_app\<lparr>app_text := ascii ''  ''\<rparr>) = []
   \<and> synthesizeSpeech failing_env (init_app\<lparr>app_text := ascii ''  ''\<rparr>) =
        (init_app\<lparr>app_text := ascii ''  ''\<rparr>,
         [Toast (ascii ''Error'') (ascii ''Please enter some text to convert to speech'') True])
   \<and> click_generate failing_env (init_app\<lparr>app_text := ascii ''  ''\<rparr>) =
        (init_app\<lparr>app_text := ascii ''  ''\<rparr>, [])"
proof -
  have typed: "app_text (init_app\<lparr>app_text := ascii ''  ''\<rparr>) = [32, 32]"
    by (simp add: ascii_def)
  have blank: "\<forall>c \<in> set (app_text (init_app\<lparr>app_text := ascii ''  ''\<rparr>)). is_js_whitespace c"
    by (simp add: ascii_def is_js_whitespace_def)
  have unset: "selectedVoice (init_app\<lparr>app_text := ascii ''  ''\<rparr>) = []"
    by (simp add: init_app_def)
  show ?thesis
    using typed blank unset
      blank_text_rejected_locally [of "init_app\<lparr>app_text := ascii ''  ''\<rparr>" failing_env]
    by blast
qed

text \<open>
  Called with a text and no voice, \<open>synthesizeSpeech\<close> does send the request (here
  the request is then rejected): the voice is not validated inside the handler.
\<close>

theorem unset_voice_still_fetches:
  "selectedVoice hello_state = []
   \<and> snd (synthesizeSpeech failing_env hello_state) =
       [FetchTTS \<lparr>req_text = ascii ''Hello world'', req_voiceId = [],
                  req_stability = Num 0.5, req_similarity_boost = Num 0.70, req_style = Num 0,
                  req_use_speaker_boost = True\<rparr>,
        ConsoleError (ascii ''Error synthesizing speech:''),
        Toast (ascii ''Error'') (ascii ''Failed to generate speech. Please try again.'') True]"
  by (simp add: hello_state_def failing_env_def init_app_def init_audio_def synthesizeSpeech_def
      synthesize_try_def initAudioContext_def tts_request_of_def first_def trim_def ascii_def
      is_js_whitespace_def)

section \<open>The history bound\<close>

text \<open>
  Claim C2. Whatever the history holds, a synthesis whose request is answered with
  audio puts the new entry in front and keeps the first ten entries. So the history
  has at most ten entries afterwards, and when it already had ten, the last of them,
  which is the one inserted first, is the one that goes.
\<close>

theorem history_prepend_truncate:
  assumes "trim (app_text s) \<noteq> []"
    and "audioContext (web_audio s) \<or> context_constructible env"
    and "tts_reply env = Response True (Some bytes)"
  shows "audioHistory (fst (synthesizeSpeech env s)) =
           take 10 (newHistoryItem env s # audioHistory s)
         \<and> length (audioHistory (fst (synthesizeSpeech env s))) \<le> 10
         \<and> (length (audioHistory s) = 10 \<longrightarrow>
               audioHistory (fst (synthesizeSpeech env s)) =
                 newHistoryItem env s # butlast (audioHistory s))"
proof -
  from synthesize_success [OF assms]
  have h: "audioHistory (fst (synthesizeSpeech env s)) =
           take 10 (newHistoryItem env s # audioHistory s)"
    by blast
  then have "length (audioHistory (fst (synthesizeSpeech env s))) \<le> 10"
    by simp
  moreover have "length (audioHistory s) = 10 \<longrightarrow>
      audioHistory (fst (synthesizeSpeech env s)) = newHistoryItem env s # butlast (audioHistory s)"
    using h take_10_full by metis
  ultimately show ?thesis
    using h by blast
qed

theorem history_prepend_truncate_witness:
  "audioHistory (fst (synthesizeSpeech undecodable_env full_history_state)) =
     newHistoryItem undecodable_env full_history_state # map entry [9, 8, 7, 6, 5, 4, 3, 2, 1]
   \<and> length (audioHistory (fst (synthesizeSpeech undecodable_env full_history_state))) = 10
   \<and> entry 0 \<notin> set (audioHistory (fst (synthesizeSpeech undecodable_env full_history_state)))"
proof -
  have a: "trim (app_text full_history_state) \<noteq> []"
    by (simp add: full_history_state_def hello_state_def trim_hello)
  have b: "audioContext (web_audio full_history_state) \<or> context_constructible undecodable_env"
    by (simp add: undecodable_env_def)
  have c: "tts_reply undecodable_env = Response True (Some [73, 68, 51])"
    by (simp add: undecodable_env_def)
  have d: "audioHistory full_history_state = map entry [9, 8, 7, 6, 5, 4, 3, 2, 1, 0]"
    by (simp add: full_history_state_def)
  have e: "entry 0 \<noteq> newHistoryItem undecodable_env full_history_state"
    by (simp add: entry_def newHistoryItem_def undecodable_env_def toString_2)
  have f: "entry 0 \<notin> set (map entry [9, 8, 7, 6, 5, 4, 3, 2, 1])"
    by (simp add: entry_def)
  from history_prepend_truncate [OF a b c] d
  have "audioHistory (fst (synthesizeSpeech undecodable_env full_history_state)) =
     newHistoryItem undecodable_env full_history_state # map entry [9, 8, 7, 6, 5, 4, 3, 2, 1]"
    by simp
  with e f show ?thesis
    by simp
qed

section \<open>One playback source\<close>

text \<open>
  What \<open>synthesizeSpeech\<close> and \<open>stopSpeech\<close> do by themselves. They keep the
  playback invariant: no source sounds but the one behind the handle. When
  \<open>synthesizeSpeech\<close> starts a source \<open>n\<close> while the handle holds a source \<open>old\<close>,
  the trace has the stop and the disconnect of \<open>old\<close> before the one start, the handle
  then holds \<open>n\<close> and \<open>old\<close> is silent; from a state that satisfies the invariant,
  \<open>n\<close> is the only source that sounds. \<open>stopSpeech\<close> with a cleared handle touches
  no source and leaves the handle cleared: all it does is set the playing flag to
  false, so the state is unchanged only when the flag was false already.
\<close>

lemma handlers_keep_one_source:
  "(one_source s \<longrightarrow>
      one_source (fst (synthesizeSpeech env s)) \<and> one_source (fst (snd (stopSpeech s))))
   \<and> (sourceRef s = Some old \<and> SourceStart n \<in> set (snd (synthesizeSpeech env s)) \<longrightarrow>
        (\<exists>pre mid post.
            snd (synthesizeSpeech env s) =
              pre @ [SourceStop old, SourceDisconnect old] @ mid @ [SourceStart n] @ post
            \<and> (\<forall>m. SourceStart m \<notin> set pre \<union> set mid \<union> set post))
        \<and> sourceRef (fst (synthesizeSpeech env s)) = Some n
        \<and> old \<notin> audible (web_audio (fst (synthesizeSpeech env s))))
   \<and> (one_source s \<and> SourceStart n \<in> set (snd (synthesizeSpeech env s)) \<longrightarrow>
        audible (web_audio (fst (synthesizeSpeech env s))) = {n})
   \<and> (sourceRef s = None \<longrightarrow>
        stopSpeech s = (None, s\<lparr>isPlaying := False\<rparr>, [])
        \<and> (\<not> isPlaying s \<longrightarrow> stopSpeech s = (None, s, [])))"
proof -
  have preempt: "(\<exists>pre mid post.
            snd (synthesizeSpeech env s) =
              pre @ [SourceStop old, SourceDisconnect old] @ mid @ [SourceStart n] @ post
            \<and> (\<forall>m. SourceStart m \<notin> set pre \<union> set mid \<union> set post))
        \<and> sourceRef (fst (synthesizeSpeech env s)) = Some n
        \<and> old \<notin> audible (web_audio (fst (synthesizeSpeech env s)))"
    if "sourceRef s = Some old" and "SourceStart n \<in> set (snd (synthesizeSpeech env s))"
    using synthesize_started [OF that(2)] that(1) by (auto simp: audible_def)
  have single: "audible (web_audio (fst (synthesizeSpeech env s))) = {n}"
    if "one_source s" and "SourceStart n \<in> set (snd (synthesizeSpeech env s))"
    using synthesize_started [OF that(2)] that(1)
    by (auto simp: audible_def one_source_def)
  show ?thesis
    using preempt single synthesize_one_source stopSpeech_one_source stopSpeech_idle
      stopSpeech_idle_silent
    by blast
qed

lemma handlers_keep_one_source_example:
  "sourceRef playing_state = Some 0
   \<and> audible (web_audio playing_state) = {0}
   \<and> snd (synthesizeSpeech playing_env playing_state) =
     [FetchTTS (tts_request_of playing_state),
      SetSavedAudio (newSavedAudio playing_env [73, 68, 51] playing_state),
      SetAudioHistory (newHistoryItem playing_env playing_state),
      SourceStop 0, SourceDisconnect 0, DecodeAudioData, CreateBufferSource 1, SourceConnect 1,
      SetGain (1 / 2), SourceStart 1,
      Toast (ascii ''Success'') (ascii ''Audio generated successfully!'') False]
   \<and> sourceRef (fst (synthesizeSpeech playing_env playing_state)) = Some 1
   \<and> audible (web_audio (fst (synthesizeSpeech playing_env playing_state))) = {1}
   \<and> stopSpeech init_app = (None, init_app, [])"
proof -
  have inv: "one_source playing_state"
    using playing_state_audio by (simp add: one_source_def)
  have held: "sourceRef playing_state = Some 0"
    using playing_state_audio by simp
  have heard: "audible (web_audio playing_state) = {0}"
    using playing_state_audio by (simp add: audible_def)
  have starts: "SourceStart 1 \<in> set (snd (synthesizeSpeech playing_env playing_state))"
    by (simp add: second_synthesis_trace)
  have idle: "sourceRef init_app = None" "\<not> isPlaying init_app"
    by (simp_all add: init_app_def)
  from handlers_keep_one_source [of playing_state playing_env 0 1] inv held starts
  have "sourceRef (fst (synthesizeSpeech playing_env playing_state)) = Some 1"
    "audible (web_audio (fst (synthesizeSpeech playing_env playing_state))) = {1}"
    by blast+
  moreover from handlers_keep_one_source [of init_app playing_env 0 1] idle
  have "stopSpeech init_app = (None, init_app, [])"
    by blast
  ultimately show ?thesis
    using held heard second_synthesis_trace by simp
qed

text \<open>
  Claim C3, evaluated on the code. The invariant does not survive the \<open>onended\<close>
  callback of a source that was preempted: the callback clears the handle whichever
  source it belongs to. Source 0 plays and is held. A second synthesis stops it and
  starts source 1, which the handle then holds. Now the callback of the stopped source
  0 runs: the handle is cleared and the playing flag is false while source 1 still
  sounds. A third synthesis finds no handle, stops nothing and starts source 2: two
  sources sound at once.
\<close>

theorem stale_onended_leaves_two_sources:
  "sourceRef playing_state = Some 0 \<and> audible (web_audio playing_state) = {0}
   \<and> sourceRef preempted_state = Some 1 \<and> audible (web_audio preempted_state) = {1}
   \<and> 0 \<in> stopped (web_audio preempted_state)
   \<and> sourceRef orphaned_state = None \<and> \<not> isPlaying orphaned_state
   \<and> audible (web_audio orphaned_state) = {1}
   \<and> snd (synthesizeSpeech playing_env orphaned_state) =
       [FetchTTS (tts_request_of orphaned_state),
        SetSavedAudio (newSavedAudio playing_env [73, 68, 51] orphaned_state),
        SetAudioHistory (newHistoryItem playing_env orphaned_state),
        DecodeAudioData, CreateBufferSource 2, SourceConnect 2, SetGain (1 / 2), SourceStart 2,
        Toast (ascii ''Success'') (ascii ''Audio generated successfully!'') False]
   \<and> audible (web_audio (fst (synthesizeSpeech playing_env orphaned_state))) = {1, 2}"
proof -
  have first_run: "sourceRef playing_state = Some 0 \<and> audible (web_audio playing_state) = {0}"
    using playing_state_audio by (simp add: audible_def)
  have second_run: "sourceRef preempted_state = Some 1
      \<and> audible (web_audio preempted_state) = {1} \<and> 0 \<in> stopped (web_audio preempted_state)"
    using preempted_state_audio by (auto simp: audible_def)
  have callback: "sourceRef orphaned_state = None \<and> \<not> isPlaying orphaned_state
      \<and> audible (web_audio orphaned_state) = {1}"
    using orphaned_state_audio by (auto simp: audible_def orphaned_state_def source_ended_def)
  have third_run: "audible (web_audio (fst (synthesizeSpeech playing_env orphaned_state))) = {1, 2}"
    using third_synthesis_audio by (auto simp: audible_def)
  from first_run second_run callback third_synthesis_trace third_run show ?thesis
    by blast
qed

section \<open>The order of a synthesis\<close>

text \<open>
  Claim C4. A synthesis whose request is answered with audio performs, right after the
  request, one \<open>setSavedAudio\<close> and then one \<open>setAudioHistory\<close>, and neither occurs
  again: everything the playback block does, the start of a source included, comes
  after them. Nothing is assumed about decoding or playback, so the artifact and the
  history entry are there also when these fail.
\<close>

theorem artifact_then_history_then_playback:
  assumes "trim (app_text s) \<noteq> []"
    and "audioContext (web_audio s) \<or> context_constructible env"
    and "tts_reply env = Response True (Some bytes)"
  shows "\<exists>tr.
     snd (synthesizeSpeech env s) =
       [FetchTTS (tts_request_of s), SetSavedAudio (newSavedAudio env bytes s),
        SetAudioHistory (newHistoryItem env s)] @ tr
     \<and> (\<forall>a. SetSavedAudio a \<notin> set tr) \<and> (\<forall>h. SetAudioHistory h \<notin> set tr)
     \<and> savedAudio (fst (synthesizeSpeech env s)) = Some (newSavedAudio env bytes s)
     \<and> audioHistory (fst (synthesizeSpeech env s)) =
         take 10 (newHistoryItem env s # audioHistory s)"
  using assms by (rule synthesize_success)

theorem artifact_then_history_then_playback_witness:
  "snd (synthesizeSpeech undecodable_env hello_state) =
     [FetchTTS (tts_request_of hello_state),
      SetSavedAudio (newSavedAudio undecodable_env [73, 68, 51] hello_state),
      SetAudioHistory (newHistoryItem undecodable_env hello_state),
      DecodeAudioData,
      ConsoleError (ascii ''Error synthesizing speech:''),
      Toast (ascii ''Error'') (ascii ''Failed to generate speech. Please try again.'') True]
   \<and> audioHistory (fst (synthesizeSpeech undecodable_env hello_state)) =
       [newHistoryItem undecodable_env hello_state]
   \<and> snd (synthesizeSpeech playing_env hello_state) =
     [FetchTTS (tts_request_of hello_state),
      SetSavedAudio (newSavedAudio playing_env [73, 68, 51] hello_state),
      SetAudioHistory (newHistoryItem playing_env hello_state),
      DecodeAudioData, CreateBufferSource 0, SourceConnect 0, SetGain (1 / 2), SourceStart 0,
      Toast (ascii ''Success'') (ascii ''Audio generated successfully!'') False]"
proof -
  have a: "trim (app_text hello_state) \<noteq> []"
    by (simp add: hello_state_def trim_hello)
  have b: "audioContext (web_audio hello_state) \<or> context_constructible undecodable_env"
    by (simp add: undecodable_env_def)
  have c: "tts_reply undecodable_env = Response True (Some [73, 68, 51])"
    by (simp add: undecodable_env_def)
  have d: "audioHistory hello_state = []"
    by (simp add: hello_state_def init_app_def)
  have t1: "snd (synthesizeSpeech undecodable_env hello_state) =
     [FetchTTS (tts_request_of hello_state),
      SetSavedAudio (newSavedAudio undecodable_env [73, 68, 51] hello_state),
      SetAudioHistory (newHistoryItem undecodable_env hello_state),
      DecodeAudioData,
      ConsoleError (ascii ''Error synthesizing speech:''),
      Toast (ascii ''Error'') (ascii ''Failed to generate speech. Please try again.'') True]"
    using a by (simp add: synthesizeSpeech_def synthesize_try_def initAudioContext_def play_def
        stop_previous_def undecodable_env_def hello_state_def init_app_def init_audio_def)
  have t2: "snd (synthesizeSpeech playing_env hello_state) =
     [FetchTTS (tts_request_of hello_state),
      SetSavedAudio (newSavedAudio playing_env [73, 68, 51] hello_state),
      SetAudioHistory (newHistoryItem playing_env hello_state),
      DecodeAudioData, CreateBufferSource 0, SourceConnect 0, SetGain (1 / 2), SourceStart 0,
      Toast (ascii ''Success'') (ascii ''Audio generated successfully!'') False]"
    using a by (simp add: synthesizeSpeech_def synthesize_try_def initAudioContext_def
        playback_defs first_def playing_env_def hello_state_def init_app_def init_audio_def)
  from artifact_then_history_then_playback [OF a b c] d
  have "audioHistory (fst (synthesizeSpeech undecodable_env hello_state)) =
       [newHistoryItem undecodable_env hello_state]"
    by auto
  with t1 t2 show ?thesis
    by simp
qed

section \<open>What the proxy route forwards\<close>

text \<open>
  Claim C5, evaluated on \<open>POST\<close> of \<open>src/app/api/tts/route.ts\<close>. A request that
  carries stability 0.9, similarity boost 0.1, style 0.3 and speaker boost off reaches
  the Gateway with stability 0.5 and similarity boost 0.5 and no style or speaker
  boost: this handler never reads the four settings. The audio comes back as
  \<open>audio/mpeg\<close> all the same.
\<close>

theorem tts_route_sends_fixed_settings:
  "fst (tts_route_POST (Some (ascii ''key'')) (IsObject posted_body)
          (Response True (Some [73, 68, 51]))) =
     Some \<lparr>gw_voice = JString (ascii ''v1''), gw_api_key = ascii ''key'',
            gw_text = JString (ascii ''Hello world''),
            gw_model_id = JString (ascii ''eleven_monolingual_v1''),
            gw_voice_settings =
              \<lparr>vs_stability = JNumber 0.5, vs_similarity_boost = JNumber 0.5,
               vs_style = JUndefined, vs_use_speaker_boost = JUndefined\<rparr>\<rparr>
   \<and> snd (tts_route_POST (Some (ascii ''key'')) (IsObject posted_body)
          (Response True (Some [73, 68, 51]))) =
       AudioResponse [73, 68, 51] (ascii ''audio/mpeg'') 3"
  by (simp add: tts_route_POST_def posted_body_def or_else_def with_default_def relay_audio_def
      ascii_def)

text \<open>
  The second handler for the same path does what the claim says: with a credential, the
  four settings of the body are the voice settings sent on (an absent style or speaker
  boost is replaced by its default), and the answer is the audio as \<open>audio/mpeg\<close> or
  the error object with status 500.
\<close>

lemma tts_route_settings_forwarded:
  assumes "or_else apiKey [] \<noteq> []"
    and "b_style body \<noteq> JUndefined" and "b_use_speaker_boost body \<noteq> JUndefined"
  shows "map_option gw_voice_settings
           (fst (tts_route_POST_settings apiKey (IsObject body) reply)) =
         Some \<lparr>vs_stability = b_stability body, vs_similarity_boost = b_similarity_boost body,
                vs_style = b_style body, vs_use_speaker_boost = b_use_speaker_boost body\<rparr>"
  using assms by (simp add: tts_route_POST_settings_def with_default_def)

lemma tts_route_settings_forwarded_example:
  "map_option gw_voice_settings
     (fst (tts_route_POST_settings (Some (ascii ''key'')) (IsObject posted_body)
             (Response True (Some [73, 68, 51])))) =
   Some \<lparr>vs_stability = JNumber 0.9, vs_similarity_boost = JNumber 0.1,
          vs_style = JNumber 0.3, vs_use_speaker_boost = JBool False\<rparr>"
proof -
  have "or_else (Some (ascii ''key'')) [] \<noteq> []"
    by (simp add: or_else_def ascii_def)
  moreover have "b_style posted_body \<noteq> JUndefined" "b_use_speaker_boost posted_body \<noteq> JUndefined"
    by (simp_all add: posted_body_def)
  ultimately show ?thesis
    using tts_route_settings_forwarded [of "Some (ascii ''key'')" posted_body]
    by (simp add: posted_body_def)
qed

lemma tts_route_answers:
  "snd (tts_route_POST_settings apiKey request reply) = tts_failure
   \<or> (\<exists>bytes. reply = Response True (Some bytes)
         \<and> snd (tts_route_POST_settings apiKey request reply) =
             AudioResponse bytes (ascii ''audio/mpeg'') (length bytes))"
  by (auto simp: tts_route_POST_settings_def relay_audio_def
      split: request_json.splits fetched.splits option.splits)

section \<open>Mute and unmute\<close>

text \<open>
  Claim C6. From an unmuted state with any volume, the mute toggle saves the volume and
  sets it to 0, and the next toggle puts back exactly the volume there was before.
\<close>

theorem mute_then_unmute_restores_volume:
  "\<not> isMuted s \<Longrightarrow>
     volume (handleMuteToggle s) = [Num 0]
     \<and> isMuted (handleMuteToggle s)
     \<and> previousVolume (handleMuteToggle s) = volume s
     \<and> volume (handleMuteToggle (handleMuteToggle s)) = volume s
     \<and> \<not> isMuted (handleMuteToggle (handleMuteToggle s))"
  by (simp add: handleMuteToggle_def)

theorem mute_then_unmute_restores_volume_witness:
  "volume (init_app\<lparr>volume := [Num 37]\<rparr>) = [Num 37]
   \<and> volume (handleMuteToggle (init_app\<lparr>volume := [Num 37]\<rparr>)) = [Num 0]
   \<and> volume (handleMuteToggle (handleMuteToggle (init_app\<lparr>volume := [Num 37]\<rparr>))) = [Num 37]"
proof -
  have "\<not> isMuted (init_app\<lparr>volume := [Num 37]\<rparr>)"
    by (simp add: init_app_def)
  from mute_then_unmute_restores_volume [OF this] show ?thesis
    by simp
qed

section \<open>Presets\<close>

text \<open>
  Claim C7, as the component has it. The round trip needs two conditions that the
  code checks or relies on. The identifier made at save time, the decimal string of the
  clock reading, must not be the identifier of a preset stored already, because loading
  takes the first preset with the identifier. And the name must not be blank, because
  under a blank name nothing is saved. Then: loading the identifier right away gives
  the settings bundle and the voice of the moment of saving (under any name, even), and
  under a name that is not blank, loading it later, in any state that still has the
  same presets (the settings may have been moved meanwhile), brings that bundle and
  that voice back and marks the preset as selected.
\<close>

theorem save_then_load_preset:
  assumes fresh: "\<forall>p \<in> set (presets s). preset_id p \<noteq> toString now"
  shows "settings_bundle (fst (loadPreset (toString now) (fst (handleSavePreset now nm s))))
           = settings_bundle s
     \<and> selectedVoice (fst (loadPreset (toString now) (fst (handleSavePreset now nm s))))
           = selectedVoice s
     \<and> (trim nm \<noteq> [] \<and> presets s' = presets (fst (handleSavePreset now nm s)) \<longrightarrow>
           settings_bundle (fst (loadPreset (toString now) s')) = settings_bundle s
           \<and> selectedVoice (fst (loadPreset (toString now) s')) = selectedVoice s
           \<and> selectedPreset (fst (loadPreset (toString now) s')) = Some (toString now))"
proof -
  define p where "p = \<lparr>preset_id = toString now, preset_name = nm,
      preset_voiceId = selectedVoice s, preset_settings = settings_bundle s\<rparr>"
  have found: "find (\<lambda>q. preset_id q = toString now) (presets s @ [p]) = Some p"
    using fresh find_snoc_fresh [of "presets s" "\<lambda>q. preset_id q = toString now" p]
    by (simp add: p_def)
  have later: "settings_bundle (fst (loadPreset (toString now) t)) = settings_bundle s
      \<and> selectedVoice (fst (loadPreset (toString now) t)) = selectedVoice s
      \<and> selectedPreset (fst (loadPreset (toString now) t)) = Some (toString now)"
    if "trim nm \<noteq> []" and "presets t = presets (fst (handleSavePreset now nm s))" for t
  proof -
    have "presets t = presets s @ [p]"
      using that by (simp add: handleSavePreset_def p_def settings_bundle_def)
    with found show ?thesis
      by (simp add: loadPreset_def p_def settings_bundle_def first_def)
  qed
  have at_once: "settings_bundle (fst (loadPreset (toString now) (fst (handleSavePreset now nm s))))
           = settings_bundle s
     \<and> selectedVoice (fst (loadPreset (toString now) (fst (handleSavePreset now nm s))))
           = selectedVoice s"
  proof (cases "trim nm = []")
    case True
    then show ?thesis
      using fresh by (simp add: handleSavePreset_def loadPreset_def find_none_fresh)
  next
    case False
    then show ?thesis
      using later [of "fst (handleSavePreset now nm s)"] by simp
  qed
  from at_once later [of s'] show ?thesis
    by blast
qed

theorem save_then_load_preset_witness:
  "settings_bundle
     (fst (loadPreset (toString 2)
        ((fst (handleSavePreset 2 (ascii ''Calm'') tuned_state))
           \<lparr>selectedVoice := ascii ''v2'', app_stability := [Num 1], speakerBoost := True\<rparr>)))
     = \<lparr>stability = Num 0.3, similarity = Num 0.9, style = Num 0.2, use_speaker_boost = False\<rparr>
   \<and> selectedVoice
     (fst (loadPreset (toString 2)
        ((fst (handleSavePreset 2 (ascii ''Calm'') tuned_state))
           \<lparr>selectedVoice := ascii ''v2'', app_stability := [Num 1], speakerBoost := True\<rparr>)))
     = ascii ''v1''"
proof -
  have b: "\<forall>p \<in> set (presets tuned_state). preset_id p \<noteq> toString 2"
    by (simp add: tuned_state_def init_app_def)
  have c: "presets ((fst (handleSavePreset 2 (ascii ''Calm'') tuned_state))
           \<lparr>selectedVoice := ascii ''v2'', app_stability := [Num 1], speakerBoost := True\<rparr>)
         = presets (fst (handleSavePreset 2 (ascii ''Calm'') tuned_state))"
    by simp
  have d: "settings_bundle tuned_state =
      \<lparr>stability = Num 0.3, similarity = Num 0.9, style = Num 0.2, use_speaker_boost = False\<rparr>"
    by (simp add: settings_bundle_def tuned_state_def first_def)
  have e: "selectedVoice tuned_state = ascii ''v1''"
    by (simp add: tuned_state_def)
  from save_then_load_preset [OF b, of "ascii ''Calm''"
      "(fst (handleSavePreset 2 (ascii ''Calm'') tuned_state))
         \<lparr>selectedVoice := ascii ''v2'', app_stability := [Num 1], speakerBoost := True\<rparr>"]
    trim_calm c d e
  show ?thesis
    by simp
qed

text \<open>
  Without these conditions the round trip fails. A preset saved at clock reading 2
  while a preset with identifier \<open>2\<close> is stored: loading \<open>2\<close> selects the voice and
  the settings of the older preset. And a preset "saved" under the name of one space,
  which is not empty: nothing is stored, so after the stability has been moved, loading
  does not bring the bundle back.
\<close>

theorem preset_round_trip_fails:
  "selectedVoice clash_state = ascii ''v1''
   \<and> selectedVoice
        (fst (loadPreset (toString 2) (fst (handleSavePreset 2 (ascii ''Calm'') clash_state))))
       = ascii ''v0''
   \<and> settings_bundle
        (fst (loadPreset (toString 2) (fst (handleSavePreset 2 (ascii ''Calm'') clash_state))))
       \<noteq> settings_bundle clash_state
   \<and> presets (fst (handleSavePreset 2 (ascii '' '') tuned_state)) = []
   \<and> settings_bundle
        (fst (loadPreset (toString 2)
           ((fst (handleSavePreset 2 (ascii '' '') tuned_state))\<lparr>app_stability := [Num 1]\<rparr>)))
       \<noteq> settings_bundle tuned_state"
proof -
  have blank: "trim (ascii '' '') = []"
    by (simp add: trim_def ascii_def is_js_whitespace_def)
  have clash: "selectedVoice clash_state = ascii ''v1''
     \<and> selectedVoice
        (fst (loadPreset (toString 2) (fst (handleSavePreset 2 (ascii ''Calm'') clash_state))))
       = ascii ''v0''
     \<and> settings_bundle
        (fst (loadPreset (toString 2) (fst (handleSavePreset 2 (ascii ''Calm'') clash_state))))
       \<noteq> settings_bundle clash_state"
    using trim_calm
    by (simp add: handleSavePreset_def loadPreset_def settings_bundle_def first_def
        clash_state_def tuned_state_def init_app_def toString_2 ascii_def)
  have unsaved: "presets (fst (handleSavePreset 2 (ascii '' '') tuned_state)) = []
     \<and> settings_bundle
        (fst (loadPreset (toString 2)
           ((fst (handleSavePreset 2 (ascii '' '') tuned_state))\<lparr>app_stability := [Num 1]\<rparr>)))
       \<noteq> settings_bundle tuned_state"
    using blank
    by (simp add: handleSavePreset_def loadPreset_def settings_bundle_def first_def
        tuned_state_def init_app_def)
  from clash unsaved show ?thesis
    by blast
qed

text \<open>
  Claim C9. Loading an identifier that no stored preset has changes nothing, neither
  the voice nor a setting nor the preset marker nor anything else of the state, and
  emits no notification.
\<close>

theorem load_unknown_preset_is_noop:
  "\<forall>p \<in> set (presets s). preset_id p \<noteq> presetId \<Longrightarrow> loadPreset presetId s = (s, [])"
  by (simp add: loadPreset_def find_none_fresh)

theorem load_unknown_preset_is_noop_witness:
  "loadPreset (ascii ''7'') (fst (handleSavePreset 2 (ascii ''Calm'') tuned_state)) =
     (fst (handleSavePreset 2 (ascii ''Calm'') tuned_state), [])"
proof -
  have "\<forall>p \<in> set (presets (fst (handleSavePreset 2 (ascii ''Calm'') tuned_state))).
          preset_id p \<noteq> ascii ''7''"
    by (simp add: handleSavePreset_def trim_calm ascii_def toString_2 tuned_state_def
        init_app_def)
  from load_unknown_preset_is_noop [OF this] show ?thesis .
qed

section \<open>Deleting and cloning voices\<close>

text \<open>
  Claim C8. After a delete request that the proxy answers with success, no voice of the
  local list has the deleted identifier; the selection is emptied when it was that
  identifier and is left as it was otherwise.
\<close>

theorem delete_voice_clears_selection:
  "voices (fst (handleDeleteVoice (Response True u) voiceId s)) =
      filter (\<lambda>voice. voice_id voice \<noteq> voiceId) (voices s)
   \<and> voiceId \<notin> voice_id ` set (voices (fst (handleDeleteVoice (Response True u) voiceId s)))
   \<and> selectedVoice (fst (handleDeleteVoice (Response True u) voiceId s)) =
       (if selectedVoice s = voiceId then [] else selectedVoice s)"
  by (auto simp: handleDeleteVoice_def)

theorem delete_voice_clears_selection_witness:
  "voices (fst (handleDeleteVoice (Response True ()) (ascii ''v2'') two_voices)) =
      [\<lparr>voice_id = ascii ''v1'', name = ascii ''Rachel'', category = ascii ''premade''\<rparr>]
   \<and> selectedVoice (fst (handleDeleteVoice (Response True ()) (ascii ''v2'') two_voices)) = []
   \<and> selectedVoice (fst (handleDeleteVoice (Response True ()) (ascii ''v1'') two_voices)) =
       ascii ''v2''"
  using delete_voice_clears_selection [of "()" "ascii ''v2''" two_voices]
    delete_voice_clears_selection [of "()" "ascii ''v1''" two_voices]
  by (simp add: two_voices_def ascii_def)

text \<open>
  What \<open>handleVoiceCloning\<close> leaves behind at the moment it is done, however the
  request ends (rejected, refused by the proxy, answered without a voice identifier, or
  successful) and whatever the timer did meanwhile: the chosen file is gone, the voice
  name is empty, the upload progress is 0 and the recording is discarded. The form
  cannot be submitted again as it stands: submitting does nothing until a name and a
  sample are given anew.
\<close>

lemma cloning_always_clears_the_form:
  "selectedFile (fst (handleVoiceCloning env fileOrBlob nm s)) = None
   \<and> voiceName (fst (handleVoiceCloning env fileOrBlob nm s)) = []
   \<and> uploadProgress (fst (handleVoiceCloning env fileOrBlob nm s)) = 0
   \<and> recordedAudio (fst (handleVoiceCloning env fileOrBlob nm s)) = None
   \<and> audioURL (fst (handleVoiceCloning env fileOrBlob nm s)) = None
   \<and> recordingDuration (fst (handleVoiceCloning env fileOrBlob nm s)) = 0
   \<and> \<not> isCloning (fst (handleVoiceCloning env fileOrBlob nm s))
   \<and> submit_clone env' (fst (handleVoiceCloning env fileOrBlob nm s)) =
       (fst (handleVoiceCloning env fileOrBlob nm s), [])"
proof -
  obtain thrown s1 tr1 where t: "clone_try env fileOrBlob nm s = (thrown, s1, tr1)"
    by (metis prod_cases3)
  define s2 where "s2 = (case thrown of None \<Rightarrow> s1 | Some msg \<Rightarrow> s1\<lparr>uploadProgress := 0\<rparr>)"
  define s3 where "s3 = s2\<lparr>isCloning := False, selectedFile := None, voiceName := [],
      uploadProgress := 0\<rparr>"
  have "fst (handleVoiceCloning env fileOrBlob nm s) = fst (resetRecording s3)"
    using t by (simp add: handleVoiceCloning_def s3_def s2_def split: option.splits prod.splits)
  moreover have "selectedFile s3 = None \<and> voiceName s3 = [] \<and> uploadProgress s3 = 0
      \<and> \<not> isCloning s3"
    by (simp add: s3_def)
  ultimately have fields:
    "selectedFile (fst (handleVoiceCloning env fileOrBlob nm s)) = None
     \<and> voiceName (fst (handleVoiceCloning env fileOrBlob nm s)) = []
     \<and> uploadProgress (fst (handleVoiceCloning env fileOrBlob nm s)) = 0
     \<and> recordedAudio (fst (handleVoiceCloning env fileOrBlob nm s)) = None
     \<and> audioURL (fst (handleVoiceCloning env fileOrBlob nm s)) = None
     \<and> recordingDuration (fst (handleVoiceCloning env fileOrBlob nm s)) = 0
     \<and> \<not> isCloning (fst (handleVoiceCloning env fileOrBlob nm s))"
    using resetRecording_fields [of s3] by simp
  then have "submit_clone env' (fst (handleVoiceCloning env fileOrBlob nm s)) =
       (fst (handleVoiceCloning env fileOrBlob nm s), [])"
    by (simp add: submit_clone_def)
  with fields show ?thesis
    by blast
qed

text \<open>
  The timer. Its callback changes nothing but the upload progress. A request that is
  answered leaves as many timers running as there were; a request that is rejected
  leaves one more.
\<close>

lemma progress_ticks_intervals:
  "progressIntervals ((progress_tick ^^ k) s) = progressIntervals s"
  by (induction k) (simp_all add: progress_tick_def)

lemma progress_tick_live:
  "progressIntervals t \<noteq> 0 \<Longrightarrow>
     uploadProgress (progress_tick t) = min (uploadProgress t + 10) 90"
  by (simp add: progress_tick_def)

lemma progress_ticks_value:
  assumes "0 < progressIntervals s" and "0 < k"
  shows "uploadProgress ((progress_tick ^^ k) s) = min (uploadProgress s + 10 * k) 90"
  using assms(2)
proof (induction k)
  case 0
  then show ?case by simp
next
  case (Suc k)
  have live: "progressIntervals ((progress_tick ^^ k) s) \<noteq> 0"
    using assms(1) by (simp add: progress_ticks_intervals)
  have step: "uploadProgress ((progress_tick ^^ Suc k) s) =
      min (uploadProgress ((progress_tick ^^ k) s) + 10) 90"
    using progress_tick_live [OF live] by simp
  show ?case
  proof (cases "k = 0")
    case True
    with step show ?thesis by simp
  next
    case False
    with Suc.IH have "uploadProgress ((progress_tick ^^ k) s) = min (uploadProgress s + 10 * k) 90"
      by simp
    with step show ?thesis
      by simp
  qed
qed

lemma answered_clone_stops_timer:
  "clone_reply env = Response ok body \<Longrightarrow>
     progressIntervals (fst (handleVoiceCloning env fileOrBlob nm s)) = progressIntervals s"
  by (simp add: handleVoiceCloning_def clone_try_def resetRecording_def Let_def
      progress_ticks_intervals split: clone_body.splits)

lemma rejected_clone_leaks_timer:
  "clone_reply env = Rejected msg \<Longrightarrow>
     progressIntervals (fst (handleVoiceCloning env fileOrBlob nm s)) =
       Suc (progressIntervals s)"
  by (simp add: handleVoiceCloning_def clone_try_def resetRecording_def Let_def
      progress_ticks_intervals)

lemma rejected_clone_state:
  "handleVoiceCloning rejected_clone take_file (ascii ''Mine'') cloning_form =
   (init_app\<lparr>progressIntervals := 1\<rparr>,
    [SetInterval, FetchClone (ascii ''Mine'') (ascii ''recorded-audio.wav''),
     ConsoleError (ascii ''Voice cloning error:''),
     Toast (ascii ''Error'') (ascii ''Failed to fetch'') True])"
  by (simp add: handleVoiceCloning_def clone_try_def resetRecording_def cloning_form_def
      init_app_def rejected_clone_def take_file_def progress_tick_def form_file_name_def
      instanceof_Blob_def or_else_def ascii_def numeral_3_eq_3)

text \<open>
  Claim C10, evaluated on the code. The cloning form is filled in and the request is
  rejected. When the handler is done the file, the name and the recording are cleared
  and the progress is 0, but no \<open>clearInterval\<close> was called and the timer is still
  live: its next tick puts the progress at 10, and from the ninth tick on it stays at
  90. So the progress does not stay reset after a failed clone.
\<close>

theorem rejected_clone_leaves_progress_timer:
  "uploadProgress (fst (handleVoiceCloning rejected_clone take_file
       (ascii ''Mine'') cloning_form)) = 0
   \<and> ClearInterval \<notin> set (snd (handleVoiceCloning rejected_clone take_file
       (ascii ''Mine'') cloning_form))
   \<and> progressIntervals (fst (handleVoiceCloning rejected_clone take_file
       (ascii ''Mine'') cloning_form)) = 1
   \<and> uploadProgress (progress_tick (fst (handleVoiceCloning rejected_clone take_file
       (ascii ''Mine'') cloning_form))) = 10
   \<and> uploadProgress ((progress_tick ^^ 9) (fst (handleVoiceCloning rejected_clone take_file
       (ascii ''Mine'') cloning_form))) = 90
   \<and> uploadProgress ((progress_tick ^^ 12) (fst (handleVoiceCloning rejected_clone take_file
       (ascii ''Mine'') cloning_form))) = 90"
proof -
  let ?s = "init_app\<lparr>progressIntervals := 1\<rparr>"
  have live: "0 < progressIntervals ?s" and zero: "uploadProgress ?s = 0"
    by (simp_all add: init_app_def)
  have "uploadProgress (progress_tick ?s) = 10"
    using live zero by (simp add: progress_tick_live)
  moreover have "uploadProgress ((progress_tick ^^ 9) ?s) = 90"
    "uploadProgress ((progress_tick ^^ 12) ?s) = 90"
    using progress_ticks_value [OF live, of 9] progress_ticks_value [OF live, of 12] zero
    by simp_all
  ultimately show ?thesis
    using zero by (simp add: rejected_clone_state)
qed

text \<open>
  The same form with the request answered: the timer is stopped, and a tick that still
  arrives leaves the progress at 0.
\<close>

lemma accepted_clone_progress_stays:
  "progressIntervals (fst (handleVoiceCloning accepted_clone take_file
       (ascii ''Mine'') cloning_form)) = 0
   \<and> uploadProgress (progress_tick (fst (handleVoiceCloning accepted_clone take_file
       (ascii ''Mine'') cloning_form))) = 0"
proof -
  have "clone_reply accepted_clone = Response True (Parsed (Some (ascii ''v9'')) None)"
    by (simp add: accepted_clone_def)
  from answered_clone_stops_timer [OF this]
  have "progressIntervals (fst (handleVoiceCloning accepted_clone take_file
       (ascii ''Mine'') cloning_form)) = 0"
    by (simp add: cloning_form_def init_app_def)
  then show ?thesis
    using cloning_always_clears_the_form [of accepted_clone
        take_file "ascii ''Mine''" cloning_form]
    by (simp add: progress_tick_def)
qed

end
